theory Spec2Isabelle
  imports Main
begin

section \<open>Data model\<close>

text \<open>
  The store is the Postgres schema of the migrations; the operations are the statements the
  pages send through the REST client, each under row-level security, and the two database
  functions \<open>ensure_my_role\<close> and \<open>verify_my_product_pin\<close>.

  A UUID is a natural number. Amounts of money are exact integers in one fixed unit
  (the columns are NUMERIC(10,2), a fixed-point type); the rounding of the client's
  doubles and the overflow of the column are outside this model. Columns that no
  statement modelled here reads are left out of the rows (timestamps, notes, contact
  number, category, cost price, minimum stock level, barcode, image, surrogate keys of
  \<open>sale_items\<close> and \<open>utang_ledger\<close>). Names are ASCII strings.
\<close>

type_synonym uuid = nat
type_synonym money = int

datatype app_role = admin | cashier
datatype payment_type = cash | utang
datatype ledger_type = credit | payment

record product_row =
  p_id :: uuid
  p_name :: string
  p_selling_price :: money
  p_stock_qty :: int
  p_owner_user_id :: uuid

record customer_row =
  c_id :: uuid
  c_full_name :: string
  c_owner_user_id :: uuid

record sale_row =
  s_id :: uuid
  s_payment_type :: payment_type
  s_total :: money
  s_cash_received :: "money option"
  s_change_amount :: "money option"
  s_customer_id :: "uuid option"
  s_cashier_id :: uuid

record sale_item_row =
  si_sale_id :: uuid
  si_product_id :: uuid
  si_product_name :: string
  si_quantity :: int
  si_price :: money
  si_total :: money

record utang_row =
  ul_customer_id :: uuid
  ul_sale_id :: "uuid option"
  ul_amount :: money
  ul_type :: ledger_type
  ul_created_by :: uuid
  ul_owner_user_id :: uuid

record user_role_row =
  ur_user_id :: uuid
  ur_role :: app_role

record profile_row =
  pf_user_id :: uuid
  pf_display_name :: string
  pf_product_pin_hash :: "string option"

text \<open>
  The tables are lists in insertion order. \<open>uuid_counter\<close> stands for
  \<open>gen_random_uuid()\<close>: the next key handed out.
\<close>

record database =
  products :: "product_row list"
  customers :: "customer_row list"
  sales :: "sale_row list"
  sale_items :: "sale_item_row list"
  utang_ledger :: "utang_row list"
  user_roles :: "user_role_row list"
  profiles :: "profile_row list"
  uuid_counter :: uuid

datatype db_error = RlsViolation | ForeignKeyViolation | NotAuthenticated

section \<open>Row-level security and statements\<close>

text \<open>\<open>has_role(_user_id, _role)\<close> of the first migration.\<close>

definition has_role :: "database \<Rightarrow> uuid \<Rightarrow> app_role \<Rightarrow> bool" where
  "has_role db user_id role =
     list_ex (\<lambda>r. ur_user_id r = user_id \<and> ur_role r = role) (user_roles db)"

subsection \<open>products\<close>

text \<open>
  Policies in force after \<open>isolate_products_per_user\<close>: "Users read own products",
  "Users insert own products", "Users update own products", "Users delete own products",
  each \<open>owner_user_id = auth.uid()\<close>. That migration drops the earlier policies,
  "Authenticated update products" among them.
\<close>

definition users_own_products :: "uuid \<Rightarrow> product_row \<Rightarrow> bool" where
  "users_own_products uid p = (p_owner_user_id p = uid)"

definition select_products :: "database \<Rightarrow> uuid \<Rightarrow> product_row list" where
  "select_products db uid = filter (users_own_products uid) (products db)"

text \<open>
  \<open>insert(payload)\<close>: \<open>owner\<close> is the column when the caller sends it, else the
  default \<open>auth.uid()\<close>.
\<close>

definition insert_products ::
  "database \<Rightarrow> uuid \<Rightarrow> string \<Rightarrow> money \<Rightarrow> int \<Rightarrow> uuid option \<Rightarrow> db_error + database" where
  "insert_products db uid name selling_price stock_qty owner =
     (let row = \<lparr>p_id = uuid_counter db, p_name = name, p_selling_price = selling_price,
                  p_stock_qty = stock_qty,
                  p_owner_user_id = (case owner of None \<Rightarrow> uid | Some u \<Rightarrow> u)\<rparr>
      in if users_own_products uid row
         then Inr (db\<lparr>products := products db @ [row], uuid_counter := Suc (uuid_counter db)\<rparr>)
         else Inl RlsViolation)"

text \<open>
  \<open>update(payload).eq('id', id)\<close> as \<open>handleSave\<close> sends it: the rows the caller may
  update are those passing USING; each new row must pass WITH CHECK.
\<close>

record product_payload =
  pl_name :: string
  pl_selling_price :: money
  pl_stock_qty :: int

definition apply_payload :: "product_payload \<Rightarrow> product_row \<Rightarrow> product_row" where
  "apply_payload pl p =
     p\<lparr>p_name := pl_name pl, p_selling_price := pl_selling_price pl,
       p_stock_qty := pl_stock_qty pl\<rparr>"

definition update_products ::
  "database \<Rightarrow> uuid \<Rightarrow> uuid \<Rightarrow> product_payload \<Rightarrow> db_error + database" where
  "update_products db uid pid pl =
     (let new = map (\<lambda>p. if p_id p = pid \<and> users_own_products uid p
                           then apply_payload pl p else p) (products db)
      in if list_all (\<lambda>p. p_id p = pid \<and> users_own_products uid p
                            \<longrightarrow> users_own_products uid (apply_payload pl p)) (products db)
         then Inr (db\<lparr>products := new\<rparr>)
         else Inl RlsViolation)"

text \<open>
  \<open>delete().eq('id', id)\<close>: \<open>sale_items.product_id\<close> references the product without
  a cascade, so a product that has a sale line cannot be deleted.
\<close>

definition delete_products :: "database \<Rightarrow> uuid \<Rightarrow> uuid \<Rightarrow> db_error + database" where
  "delete_products db uid pid =
     (let gone = (\<lambda>p. p_id p = pid \<and> users_own_products uid p)
      in if list_ex gone (products db) \<and> list_ex (\<lambda>i. si_product_id i = pid) (sale_items db)
         then Inl ForeignKeyViolation
         else Inr (db\<lparr>products := filter (\<lambda>p. \<not> gone p) (products db)\<rparr>))"

subsection \<open>customers\<close>

text \<open>
  Policies in force after \<open>isolate_customers_and_utang_per_user\<close>: "Users read own
  customers", "Users insert own customers", "Users update own customers", "Users delete
  own customers". That migration drops "Authenticated read customers" (so the migration
  that re-creates that policy is an earlier one) and the three admin policies; it does not
  drop "Authenticated add customers" (FOR INSERT WITH CHECK (true))
  of \<open>allow_authenticated_insert_customers\<close>, which therefore stays. Permissive policies
  of one command are joined by OR.
\<close>

definition users_own_customers :: "uuid \<Rightarrow> customer_row \<Rightarrow> bool" where
  "users_own_customers uid c = (c_owner_user_id c = uid)"

definition authenticated_add_customers :: "uuid \<Rightarrow> customer_row \<Rightarrow> bool" where
  "authenticated_add_customers uid c = True"

definition select_customers :: "database \<Rightarrow> uuid \<Rightarrow> customer_row list" where
  "select_customers db uid = filter (users_own_customers uid) (customers db)"

definition insert_customers ::
  "database \<Rightarrow> uuid \<Rightarrow> string \<Rightarrow> uuid option \<Rightarrow> db_error + database" where
  "insert_customers db uid full_name owner =
     (let row = \<lparr>c_id = uuid_counter db, c_full_name = full_name,
                  c_owner_user_id = (case owner of None \<Rightarrow> uid | Some u \<Rightarrow> u)\<rparr>
      in if users_own_customers uid row \<or> authenticated_add_customers uid row
         then Inr (db\<lparr>customers := customers db @ [row], uuid_counter := Suc (uuid_counter db)\<rparr>)
         else Inl RlsViolation)"

text \<open>
  \<open>insert({ full_name }).select('id, full_name').single()\<close>: the owner is the default,
  and the new row is returned, so it must also pass the SELECT policy.
\<close>

definition insert_customers_returning ::
  "database \<Rightarrow> uuid \<Rightarrow> string \<Rightarrow> db_error + (database \<times> customer_row)" where
  "insert_customers_returning db uid full_name =
     (let row = \<lparr>c_id = uuid_counter db, c_full_name = full_name, c_owner_user_id = uid\<rparr>
      in case insert_customers db uid full_name None of
           Inl e \<Rightarrow> Inl e
         | Inr db' \<Rightarrow> if users_own_customers uid row then Inr (db', row) else Inl RlsViolation)"

subsection \<open>sales and sale\_items\<close>

text \<open>
  "Authenticated insert sales": \<open>cashier_id = auth.uid()\<close>; "Read own or admin sales"
  for the returned row. \<open>customer_id\<close> references \<open>customers\<close>.
\<close>

definition read_own_or_admin_sales :: "database \<Rightarrow> uuid \<Rightarrow> sale_row \<Rightarrow> bool" where
  "read_own_or_admin_sales db uid s = (s_cashier_id s = uid \<or> has_role db uid admin)"

definition insert_sales_returning ::
  "database \<Rightarrow> uuid \<Rightarrow> payment_type \<Rightarrow> money \<Rightarrow> money option \<Rightarrow> money option \<Rightarrow>
   uuid option \<Rightarrow> uuid \<Rightarrow> db_error + (database \<times> sale_row)" where
  "insert_sales_returning db uid ptype total_amount cash_received change_amount customer_id cashier_id =
     (let row = \<lparr>s_id = uuid_counter db, s_payment_type = ptype, s_total = total_amount,
                  s_cash_received = cash_received, s_change_amount = change_amount,
                  s_customer_id = customer_id, s_cashier_id = cashier_id\<rparr>
      in if \<not> (cashier_id = uid) then Inl RlsViolation
         else if \<not> (case customer_id of None \<Rightarrow> True
                      | Some c \<Rightarrow> list_ex (\<lambda>r. c_id r = c) (customers db))
         then Inl ForeignKeyViolation
         else if \<not> read_own_or_admin_sales db uid row then Inl RlsViolation
         else Inr (db\<lparr>sales := sales db @ [row], uuid_counter := Suc (uuid_counter db)\<rparr>, row))"

text \<open>
  The trigger \<open>deduct_stock_on_sale\<close>, AFTER INSERT ON sale\_items FOR EACH ROW,
  SECURITY DEFINER: it updates \<open>products\<close> with the rights of its owner, so no policy
  of \<open>products\<close> filters it.
\<close>

definition deduct_stock_on_sale :: "database \<Rightarrow> sale_item_row \<Rightarrow> database" where
  "deduct_stock_on_sale db new =
     db\<lparr>products :=
          map (\<lambda>p. if p_id p = si_product_id new
                   then p\<lparr>p_stock_qty := p_stock_qty p - si_quantity new\<rparr> else p)
              (products db)\<rparr>"

text \<open>
  "Insert sale items": a sale with that id exists whose cashier is the caller, or the
  caller is admin. \<open>product_id\<close> references \<open>products\<close>; the reference is checked
  without row-level security.
\<close>

definition insert_sale_items_check :: "database \<Rightarrow> uuid \<Rightarrow> sale_item_row \<Rightarrow> bool" where
  "insert_sale_items_check db uid i =
     list_ex (\<lambda>s. s_id s = si_sale_id i \<and> (s_cashier_id s = uid \<or> has_role db uid admin))
             (sales db)"

text \<open>
  One INSERT of many rows is one statement: it inserts every row and fires the trigger
  for each, or fails as a whole.
\<close>

definition insert_sale_items ::
  "database \<Rightarrow> uuid \<Rightarrow> sale_item_row list \<Rightarrow> db_error + database" where
  "insert_sale_items db uid items =
     (if \<not> list_all (insert_sale_items_check db uid) items then Inl RlsViolation
      else if \<not> list_all (\<lambda>i. list_ex (\<lambda>s. s_id s = si_sale_id i) (sales db)
                              \<and> list_ex (\<lambda>p. p_id p = si_product_id i) (products db)) items
      then Inl ForeignKeyViolation
      else Inr (foldl deduct_stock_on_sale (db\<lparr>sale_items := sale_items db @ items\<rparr>) items))"

subsection \<open>utang\_ledger\<close>

text \<open>
  "Users read own utang" and "Users insert own utang" of
  \<open>isolate_customers_and_utang_per_user\<close>. \<open>owner_user_id\<close> defaults to
  \<open>auth.uid()\<close>.
\<close>

definition users_read_own_utang :: "uuid \<Rightarrow> utang_row \<Rightarrow> bool" where
  "users_read_own_utang uid u = (ul_owner_user_id u = uid)"

definition users_insert_own_utang :: "database \<Rightarrow> uuid \<Rightarrow> utang_row \<Rightarrow> bool" where
  "users_insert_own_utang db uid u =
     (ul_owner_user_id u = uid
      \<and> ul_created_by u = uid
      \<and> list_ex (\<lambda>c. c_id c = ul_customer_id u \<and> c_owner_user_id c = uid) (customers db)
      \<and> (case ul_sale_id u of
            None \<Rightarrow> True
          | Some sid \<Rightarrow> list_ex (\<lambda>s. s_id s = sid \<and> s_cashier_id s = uid) (sales db)))"

definition select_utang :: "database \<Rightarrow> uuid \<Rightarrow> utang_row list" where
  "select_utang db uid = filter (users_read_own_utang uid) (utang_ledger db)"

definition insert_utang ::
  "database \<Rightarrow> uuid \<Rightarrow> uuid \<Rightarrow> uuid option \<Rightarrow> money \<Rightarrow> ledger_type \<Rightarrow> uuid \<Rightarrow>
   db_error + database" where
  "insert_utang db uid customer_id sale_id amount type created_by =
     (let row = \<lparr>ul_customer_id = customer_id, ul_sale_id = sale_id, ul_amount = amount,
                  ul_type = type, ul_created_by = created_by, ul_owner_user_id = uid\<rparr>
      in if users_insert_own_utang db uid row
         then Inr (db\<lparr>utang_ledger := utang_ledger db @ [row]\<rparr>)
         else Inl RlsViolation)"

section \<open>The point-of-sale page\<close>

text \<open>
  The page keeps what it has read: \<open>Product\<close> objects as fetched (a cart entry holds
  one), and the list \<open>customers\<close> of \<open>fetchCustomers\<close>.
\<close>

record product_view =
  pv_id :: uuid
  pv_name :: string
  pv_selling_price :: money
  pv_stock_qty :: int

record cart_item =
  ci_product :: product_view
  ci_quantity :: int

record pos_customer =
  pc_id :: uuid
  pc_full_name :: string

record pos_state =
  pos_cart :: "cart_item list"
  pos_customers :: "pos_customer list"
  pos_paymentType :: payment_type
  pos_cashReceived :: money
  pos_utangCustomerName :: string

definition fetchProducts :: "database \<Rightarrow> uuid \<Rightarrow> product_view list" where
  "fetchProducts db uid =
     map (\<lambda>p. \<lparr>pv_id = p_id p, pv_name = p_name p, pv_selling_price = p_selling_price p,
                pv_stock_qty = p_stock_qty p\<rparr>) (select_products db uid)"

definition pos_fetchCustomers :: "database \<Rightarrow> uuid \<Rightarrow> pos_customer list" where
  "pos_fetchCustomers db uid =
     map (\<lambda>c. \<lparr>pc_id = c_id c, pc_full_name = c_full_name c\<rparr>) (select_customers db uid)"

definition subtotal :: "cart_item list \<Rightarrow> money" where
  "subtotal cart = foldl (\<lambda>sum c. sum + pv_selling_price (ci_product c) * ci_quantity c) 0 cart"

definition change :: "pos_state \<Rightarrow> money" where
  "change st =
     (if pos_paymentType st = cash
      then max 0 (pos_cashReceived st - subtotal (pos_cart st)) else 0)"

text \<open>\<open>String.trim\<close> and \<open>String.toLowerCase\<close> on ASCII.\<close>

definition is_space :: "char \<Rightarrow> bool" where
  "is_space c = ((of_char c :: nat) \<in> {9, 10, 11, 12, 13, 32})"

definition trim :: "string \<Rightarrow> string" where
  "trim s = rev (dropWhile is_space (rev (dropWhile is_space s)))"

definition toLowerCase :: "string \<Rightarrow> string" where
  "toLowerCase s =
     map (\<lambda>c. let n = (of_char c :: nat) in if 65 \<le> n \<and> n \<le> 90 then char_of (n + 32) else c) s"

datatype checkout_result =
    EmptyCart
  | InsufficientCash
  | EnterCustomerName
  | ErrorCreatingCustomer db_error
  | ErrorCreatingSale db_error
  | ErrorSavingItems db_error
  | SaleCompleted sale_row

text \<open>
  Lines 117 to 138 of \<open>handleCheckout\<close>: the customer of a credit sale, looked up in
  the page's list, inserted when absent.
\<close>

definition resolve_customer ::
  "database \<Rightarrow> uuid \<Rightarrow> pos_state \<Rightarrow> db_error + (database \<times> pos_state \<times> uuid option)" where
  "resolve_customer db uid st =
     (let normalizedUtangName = trim (pos_utangCustomerName st)
      in if pos_paymentType st = utang then
           (case find (\<lambda>c. toLowerCase (trim (pc_full_name c)) = toLowerCase normalizedUtangName)
                      (pos_customers st) of
              Some existingCustomer \<Rightarrow> Inr (db, st, Some (pc_id existingCustomer))
            | None \<Rightarrow>
                (case insert_customers_returning db uid normalizedUtangName of
                   Inl e \<Rightarrow> Inl e
                 | Inr (db', newCustomer) \<Rightarrow>
                     Inr (db',
                          st\<lparr>pos_customers := pos_customers st @
                               [\<lparr>pc_id = c_id newCustomer, pc_full_name = c_full_name newCustomer\<rparr>]\<rparr>,
                          Some (c_id newCustomer))))
         else Inr (db, st, None))"

definition sale_line :: "sale_row \<Rightarrow> cart_item \<Rightarrow> sale_item_row" where
  "sale_line sale c =
     \<lparr>si_sale_id = s_id sale,
      si_product_id = pv_id (ci_product c),
      si_product_name = pv_name (ci_product c),
      si_quantity = ci_quantity c,
      si_price = pv_selling_price (ci_product c),
      si_total = pv_selling_price (ci_product c) * ci_quantity c\<rparr>"

text \<open>
  Lines 165 to 175: the ledger entry of a credit sale. The result of the insert is not
  looked at, so an error leaves the store as it was and the checkout goes on.
\<close>

definition post_credit :: "database \<Rightarrow> uuid \<Rightarrow> pos_state \<Rightarrow> uuid option \<Rightarrow> sale_row \<Rightarrow> database" where
  "post_credit db uid st customerId sale =
     (case customerId of
        Some cid \<Rightarrow>
          (if pos_paymentType st = utang then
             (case insert_utang db uid cid (Some (s_id sale)) (subtotal (pos_cart st)) credit uid of
                Inl e \<Rightarrow> db
              | Inr db' \<Rightarrow> db')
           else db)
      | None \<Rightarrow> db)"

text \<open>
  \<open>handleCheckout\<close>. Every \<open>await supabase...\<close> is a request of its own, committed
  when it returns; the function returns the store, the page state and what the user is
  shown.
\<close>

definition handleCheckout ::
  "database \<Rightarrow> uuid \<Rightarrow> pos_state \<Rightarrow> database \<times> pos_state \<times> checkout_result" where
  "handleCheckout db uid st =
     (if pos_cart st = [] then (db, st, EmptyCart)
      else if pos_paymentType st = cash \<and> pos_cashReceived st < subtotal (pos_cart st)
      then (db, st, InsufficientCash)
      else if pos_paymentType st = utang \<and> trim (pos_utangCustomerName st) = []
      then (db, st, EnterCustomerName)
      else
        (case resolve_customer db uid st of
           Inl e \<Rightarrow> (db, st, ErrorCreatingCustomer e)
         | Inr (db1, st1, customerId) \<Rightarrow>
             (case insert_sales_returning db1 uid (pos_paymentType st) (subtotal (pos_cart st))
                     (if pos_paymentType st = cash then Some (pos_cashReceived st) else None)
                     (if pos_paymentType st = cash then Some (change st) else None)
                     (if pos_paymentType st = utang then customerId else None)
                     uid of
                Inl e \<Rightarrow> (db1, st1, ErrorCreatingSale e)
              | Inr (db2, sale) \<Rightarrow>
                  (case insert_sale_items db2 uid (map (sale_line sale) (pos_cart st)) of
                     Inl e \<Rightarrow> (db2, st1, ErrorSavingItems e)
                   | Inr db3 \<Rightarrow> (post_credit db3 uid st customerId sale, st1, SaleCompleted sale)))))"

section \<open>The customers page\<close>

record customer_view =
  cv_id :: uuid
  cv_full_name :: string
  cv_totalBalance :: money

text \<open>
  \<open>fetchCustomers\<close>: the loop over the ledger rows fills \<open>balances\<close>; the order of
  the customer list is not modelled.
\<close>

definition add_balance :: "(uuid \<rightharpoonup> money) \<Rightarrow> utang_row \<Rightarrow> (uuid \<rightharpoonup> money)" where
  "add_balance balances u =
     (let id = ul_customer_id u;
          b = (case balances id of None \<Rightarrow> 0 | Some v \<Rightarrow> v)
      in balances(id \<mapsto> b + (if ul_type u = credit then ul_amount u else - ul_amount u)))"

definition fetchCustomers :: "database \<Rightarrow> uuid \<Rightarrow> customer_view list" where
  "fetchCustomers db uid =
     (let custData = select_customers db uid;
          utangData = select_utang db uid;
          balances = foldl add_balance Map.empty utangData
      in map (\<lambda>c. \<lparr>cv_id = c_id c, cv_full_name = c_full_name c,
                    cv_totalBalance = max 0 (case balances (c_id c) of None \<Rightarrow> 0 | Some b \<Rightarrow> b)\<rparr>)
             custData)"

datatype payment_result = InvalidPaymentAmount | PaymentError db_error | PaymentRecorded money

text \<open>
  \<open>handlePayment\<close>: the store, the new \<open>selectedCustomer\<close> and what the user is
  shown.
\<close>

definition handlePayment ::
  "database \<Rightarrow> uuid \<Rightarrow> customer_view option \<Rightarrow> money \<Rightarrow>
   database \<times> customer_view option \<times> payment_result" where
  "handlePayment db uid selectedCustomer amount =
     (case selectedCustomer of
        None \<Rightarrow> (db, selectedCustomer, InvalidPaymentAmount)
      | Some c \<Rightarrow>
          (if amount \<le> 0 \<or> amount > cv_totalBalance c
           then (db, selectedCustomer, InvalidPaymentAmount)
           else
             (case insert_utang db uid (cv_id c) None amount payment uid of
                Inl e \<Rightarrow> (db, selectedCustomer, PaymentError e)
              | Inr db' \<Rightarrow>
                  (db', Some (c\<lparr>cv_totalBalance := cv_totalBalance c - amount\<rparr>),
                   PaymentRecorded amount))))"

section \<open>Role bootstrap\<close>

text \<open>
  \<open>INSERT INTO user_roles ... ON CONFLICT (user_id, role) DO NOTHING\<close>, run by a
  SECURITY DEFINER function, so no policy of \<open>user_roles\<close> applies.
\<close>

definition insert_user_roles_on_conflict_do_nothing ::
  "database \<Rightarrow> uuid \<Rightarrow> app_role \<Rightarrow> database" where
  "insert_user_roles_on_conflict_do_nothing db user_id role =
     (if list_ex (\<lambda>r. ur_user_id r = user_id \<and> ur_role r = role) (user_roles db) then db
      else db\<lparr>user_roles := user_roles db @ [\<lparr>ur_user_id = user_id, ur_role = role\<rparr>]\<rparr>)"

text \<open>
  \<open>ensure_my_role()\<close>, run alone. \<open>auth.uid()\<close> is NULL for a caller who is not
  signed in. \<open>SELECT ... LIMIT 1\<close> takes the first matching row.
\<close>

definition ensure_my_role :: "database \<Rightarrow> uuid option \<Rightarrow> db_error + (database \<times> app_role)" where
  "ensure_my_role db current_user_id =
     (case current_user_id of
        None \<Rightarrow> Inl NotAuthenticated
      | Some u \<Rightarrow>
          (case find (\<lambda>r. ur_user_id r = u) (user_roles db) of
             Some r \<Rightarrow> Inr (db, ur_role r)
           | None \<Rightarrow>
               (let has_admin = list_ex (\<lambda>r. ur_role r = admin) (user_roles db);
                    assigned_role = (if has_admin then cashier else admin)
                in Inr (insert_user_roles_on_conflict_do_nothing db u assigned_role,
                        assigned_role))))"

text \<open>
  The same function statement by statement, for calls that overlap. A frame holds the
  local variables of one call between two of its statements: nothing read yet; the
  caller has no role; \<open>has_admin\<close> has been read; returned. The function takes no
  lock, so between two statements of one call the statements of another may run.
\<close>

datatype frame =
    Called "uuid option"
  | NoExistingRole uuid
  | HasAdminRead uuid bool
  | Returned "db_error + app_role"

fun ensure_step :: "database \<Rightarrow> frame \<Rightarrow> database \<times> frame" where
  "ensure_step db (Called None) = (db, Returned (Inl NotAuthenticated))"
| "ensure_step db (Called (Some u)) =
     (case find (\<lambda>r. ur_user_id r = u) (user_roles db) of
        Some r \<Rightarrow> (db, Returned (Inr (ur_role r)))
      | None \<Rightarrow> (db, NoExistingRole u))"
| "ensure_step db (NoExistingRole u) =
     (db, HasAdminRead u (list_ex (\<lambda>r. ur_role r = admin) (user_roles db)))"
| "ensure_step db (HasAdminRead u has_admin) =
     (let assigned_role = (if has_admin then cashier else admin)
      in (insert_user_roles_on_conflict_do_nothing db u assigned_role,
          Returned (Inr assigned_role)))"
| "ensure_step db (Returned r) = (db, Returned r)"

datatype caller = First | Second

fun run_schedule ::
  "database \<Rightarrow> frame \<Rightarrow> frame \<Rightarrow> caller list \<Rightarrow> database \<times> frame \<times> frame" where
  "run_schedule db f1 f2 [] = (db, f1, f2)"
| "run_schedule db f1 f2 (First # sched) =
     (case ensure_step db f1 of (db', f1') \<Rightarrow> run_schedule db' f1' f2 sched)"
| "run_schedule db f1 f2 (Second # sched) =
     (case ensure_step db f2 of (db', f2') \<Rightarrow> run_schedule db' f1 f2' sched)"

section \<open>Product PIN\<close>

text \<open>
  \<open>crypt\<close> and \<open>gen_salt('bf')\<close> are pgcrypto's; they are parameters here.
  \<open>handle_new_user\<close> is the trigger on \<open>auth.users\<close>; \<open>NEW\<close> carries the id, the
  email and the two keys of \<open>raw_user_meta_data\<close> that the trigger reads.
\<close>

record new_user =
  nu_id :: uuid
  nu_email :: string
  nu_display_name :: "string option"
  nu_product_pin :: "string option"

definition handle_new_user ::
  "(string \<Rightarrow> string \<Rightarrow> string) \<Rightarrow> string \<Rightarrow> database \<Rightarrow> new_user \<Rightarrow> database" where
  "handle_new_user crypt salt db new =
     (let raw_pin = (case nu_product_pin new of None \<Rightarrow> [] | Some x \<Rightarrow> x)
      in db\<lparr>profiles := profiles db @
              [\<lparr>pf_user_id = nu_id new,
                pf_display_name = (case nu_display_name new of None \<Rightarrow> nu_email new | Some n \<Rightarrow> n),
                pf_product_pin_hash = (if raw_pin \<noteq> [] then Some (crypt raw_pin salt) else None)\<rparr>]\<rparr>)"

text \<open>
  \<open>verify_my_product_pin(_pin)\<close>. A comparison with NULL is not true, so a NULL
  \<open>auth.uid()\<close>, a NULL hash or a NULL \<open>_pin\<close> selects no row.
\<close>

definition verify_my_product_pin ::
  "(string \<Rightarrow> string \<Rightarrow> string) \<Rightarrow> database \<Rightarrow> uuid option \<Rightarrow> string option \<Rightarrow> bool" where
  "verify_my_product_pin crypt db uid pin =
     (case uid of
        None \<Rightarrow> False
      | Some u \<Rightarrow>
          list_ex (\<lambda>p. pf_user_id p = u \<and>
                       (case pf_product_pin_hash p of
                          None \<Rightarrow> False
                        | Some h \<Rightarrow> (case pin of None \<Rightarrow> False | Some x \<Rightarrow> h = crypt x h)))
                  (profiles db))"

text \<open>
  \<open>handleVerifyPin\<close> of the products page: the new value of \<open>pinUnlocked\<close>, which
  starts as \<open>false\<close> and is set nowhere else.
\<close>

definition handleVerifyPin ::
  "(string \<Rightarrow> string \<Rightarrow> string) \<Rightarrow> database \<Rightarrow> uuid option \<Rightarrow> bool \<Rightarrow> string \<Rightarrow> bool" where
  "handleVerifyPin crypt db uid pinUnlocked pinInput =
     (if \<not> verify_my_product_pin crypt db uid (Some pinInput) then pinUnlocked else True)"

section \<open>Notions of the specification\<close>





section \<open>Scenarios\<close>

definition empty_database :: database where
  "empty_database = \<lparr>products = [], customers = [], sales = [], sale_items = [],
                      utang_ledger = [], user_roles = [], profiles = [], uuid_counter = 0\<rparr>"

text \<open>Principal 1 has registered first and is the admin.\<close>

definition one_admin :: database where
  "one_admin = empty_database\<lparr>user_roles := [\<lparr>ur_user_id = 1, ur_role = admin\<rparr>]\<rparr>"

text \<open>A stand-in for pgcrypto's \<open>crypt\<close>, for evaluation only.\<close>

definition toy_crypt :: "string \<Rightarrow> string \<Rightarrow> string" where
  "toy_crypt password salt = salt @ password"

text \<open>Principal 7 signs up and leaves the PIN field empty.\<close>

definition signup_without_pin :: new_user where
  "signup_without_pin = \<lparr>nu_id = 7, nu_email = ''ana@example.com'',
                          nu_display_name = Some ''Ana'', nu_product_pin = Some []\<rparr>"

text \<open>
  A shop of principal 1 (the admin) with two products; principal 2 is a cashier account
  of its own.
\<close>

definition pancit :: product_view where
  "pancit = \<lparr>pv_id = 10, pv_name = ''Lucky Me Pancit Canton'', pv_selling_price = 14,
              pv_stock_qty = 48\<rparr>"

definition bread :: product_view where
  "bread = \<lparr>pv_id = 12, pv_name = ''Gardenia Bread'', pv_selling_price = 62, pv_stock_qty = 8\<rparr>"

definition stocked :: "int \<Rightarrow> int \<Rightarrow> product_row list" where
  "stocked a b =
     [\<lparr>p_id = 10, p_name = ''Lucky Me Pancit Canton'', p_selling_price = 14,
       p_stock_qty = a, p_owner_user_id = 1\<rparr>,
      \<lparr>p_id = 12, p_name = ''Gardenia Bread'', p_selling_price = 62,
       p_stock_qty = b, p_owner_user_id = 1\<rparr>]"

definition sari_store :: database where
  "sari_store = empty_database
     \<lparr>products := stocked 48 8,
       user_roles := [\<lparr>ur_user_id = 1, ur_role = admin\<rparr>, \<lparr>ur_user_id = 2, ur_role = cashier\<rparr>],
       uuid_counter := 100\<rparr>"

text \<open>The cart of the spec's scenario: two of product A at 14, one of product B at 62.\<close>

definition scenario_cart :: "cart_item list" where
  "scenario_cart = [\<lparr>ci_product = pancit, ci_quantity = 2\<rparr>, \<lparr>ci_product = bread, ci_quantity = 1\<rparr>]"

definition scenario_lines :: "uuid \<Rightarrow> sale_item_row list" where
  "scenario_lines sale_id =
     [\<lparr>si_sale_id = sale_id, si_product_id = 10, si_product_name = ''Lucky Me Pancit Canton'',
       si_quantity = 2, si_price = 14, si_total = 28\<rparr>,
      \<lparr>si_sale_id = sale_id, si_product_id = 12, si_product_name = ''Gardenia Bread'',
       si_quantity = 1, si_price = 62, si_total = 62\<rparr>]"

definition cash_sale :: pos_state where
  "cash_sale = \<lparr>pos_cart = scenario_cart, pos_customers = [], pos_paymentType = cash,
                 pos_cashReceived = 100, pos_utangCustomerName = []\<rparr>"

definition cash_header :: "uuid \<Rightarrow> uuid \<Rightarrow> sale_row" where
  "cash_header sale_id cashier_id =
     \<lparr>s_id = sale_id, s_payment_type = cash, s_total = 90, s_cash_received = Some 100,
      s_change_amount = Some 10, s_customer_id = None, s_cashier_id = cashier_id\<rparr>"

definition after_cash_sale :: database where
  "after_cash_sale = sari_store
     \<lparr>products := stocked 46 7, sales := [cash_header 100 1], sale_items := scenario_lines 100,
       uuid_counter := 101\<rparr>"

text \<open>The same cart on credit, for a customer typed with blanks around the name.\<close>

definition credit_sale :: pos_state where
  "credit_sale = \<lparr>pos_cart = scenario_cart, pos_customers = [], pos_paymentType = utang,
                   pos_cashReceived = 0, pos_utangCustomerName = '' Maria Santos ''\<rparr>"

definition credit_header :: "uuid \<Rightarrow> uuid \<Rightarrow> sale_row" where
  "credit_header sale_id customer_id =
     \<lparr>s_id = sale_id, s_payment_type = utang, s_total = 90, s_cash_received = None,
      s_change_amount = None, s_customer_id = Some customer_id, s_cashier_id = 1\<rparr>"

definition maria :: "uuid \<Rightarrow> customer_row" where
  "maria customer_id = \<lparr>c_id = customer_id, c_full_name = ''Maria Santos'', c_owner_user_id = 1\<rparr>"

definition credit_entry :: "uuid \<Rightarrow> uuid \<Rightarrow> utang_row" where
  "credit_entry customer_id sale_id =
     \<lparr>ul_customer_id = customer_id, ul_sale_id = Some sale_id, ul_amount = 90, ul_type = credit,
      ul_created_by = 1, ul_owner_user_id = 1\<rparr>"

definition after_credit_sale :: database where
  "after_credit_sale = sari_store
     \<lparr>products := stocked 46 7, customers := [maria 100], sales := [credit_header 101 100],
       sale_items := scenario_lines 101, utang_ledger := [credit_entry 100 101],
       uuid_counter := 102\<rparr>"

text \<open>
  Maria is a customer of principal 1 already; principal 2 has a customer of the same
  name.
\<close>

definition with_regulars :: database where
  "with_regulars = sari_store
     \<lparr>customers := [\<lparr>c_id = 6, c_full_name = ''maria santos'', c_owner_user_id = 2\<rparr>, maria 5]\<rparr>"

definition credit_sale_regular :: pos_state where
  "credit_sale_regular =
     credit_sale\<lparr>pos_customers := [\<lparr>pc_id = 5, pc_full_name = ''Maria Santos''\<rparr>],
                 pos_utangCustomerName := ''MARIA santos  ''\<rparr>"

text \<open>
  The bread has been deleted from the catalogue after the page put it in the cart.
\<close>

definition store_without_bread :: database where
  "store_without_bread = sari_store
     \<lparr>products := [\<lparr>p_id = 10, p_name = ''Lucky Me Pancit Canton'', p_selling_price = 14,
                     p_stock_qty = 48, p_owner_user_id = 1\<rparr>]\<rparr>"

text \<open>All eight loaves in one cart, paid in cash.\<close>

definition all_bread :: pos_state where
  "all_bread = \<lparr>pos_cart = [\<lparr>ci_product = bread, ci_quantity = 8\<rparr>], pos_customers = [],
                 pos_paymentType = cash, pos_cashReceived = 500, pos_utangCustomerName = []\<rparr>"

definition bread_header :: "uuid \<Rightarrow> uuid \<Rightarrow> sale_row" where
  "bread_header sale_id cashier_id =
     \<lparr>s_id = sale_id, s_payment_type = cash, s_total = 496, s_cash_received = Some 500,
      s_change_amount = Some 4, s_customer_id = None, s_cashier_id = cashier_id\<rparr>"

definition bread_line :: "uuid \<Rightarrow> sale_item_row" where
  "bread_line sale_id =
     \<lparr>si_sale_id = sale_id, si_product_id = 12, si_product_name = ''Gardenia Bread'',
      si_quantity = 8, si_price = 62, si_total = 496\<rparr>"

definition sold_out :: database where
  "sold_out = sari_store
     \<lparr>products := stocked 48 0, sales := [bread_header 100 1], sale_items := [bread_line 100],
       uuid_counter := 101\<rparr>"

text \<open>A new name and price for product 10.\<close>

definition reprice :: product_payload where
  "reprice = \<lparr>pl_name = ''Pancit Canton Chilimansi'', pl_selling_price = 20, pl_stock_qty = 46\<rparr>"

text \<open>What the two failed checkouts on \<open>store_without_bread\<close> leave behind.\<close>

definition header_without_lines :: database where
  "header_without_lines = store_without_bread\<lparr>sales := [cash_header 100 1], uuid_counter := 101\<rparr>"

definition credit_without_lines :: database where
  "credit_without_lines = store_without_bread
     \<lparr>customers := [maria 100], sales := [credit_header 101 100], uuid_counter := 102\<rparr>"

text \<open>The same cart of eight loaves checked out a second time.\<close>

definition oversold :: database where
  "oversold = sari_store
     \<lparr>products := stocked 48 (- 8), sales := [bread_header 100 1, bread_header 101 1],
       sale_items := [bread_line 100, bread_line 101], uuid_counter := 102\<rparr>"

text \<open>Maria as the customers page lists her after the credit sale, and a payment of 50.\<close>

definition maria_view :: customer_view where
  "maria_view = \<lparr>cv_id = 100, cv_full_name = ''Maria Santos'', cv_totalBalance = 90\<rparr>"

definition payment_entry :: "uuid \<Rightarrow> money \<Rightarrow> utang_row" where
  "payment_entry customer_id amount =
     \<lparr>ul_customer_id = customer_id, ul_sale_id = None, ul_amount = amount, ul_type = payment,
      ul_created_by = 1, ul_owner_user_id = 1\<rparr>"

section \<open>Properties\<close>

subsection \<open>Lists\<close>

lemma find_append:
  "find P (xs @ ys) = (case find P xs of None \<Rightarrow> find P ys | Some x \<Rightarrow> Some x)"
  by (induction xs) auto

subsection \<open>Role bootstrap\<close>

text \<open>
  C7. \<open>ensure_my_role\<close> fails with "Not authenticated" for a caller who is not signed
  in. For a principal who has a role assignment it returns a role the principal holds and
  leaves the store as it is. For a principal without one it inserts one assignment and
  returns its role: \<open>admin\<close> exactly when no assignment with role \<open>admin\<close> exists,
  \<open>cashier\<close> when one does. A second call returns the same role and changes nothing.
\<close>

theorem ensure_my_role_spec:
  "ensure_my_role db None = Inl NotAuthenticated \<and>
   ((\<exists>r\<in>set (user_roles db). ur_user_id r = u) \<longrightarrow>
      (\<exists>role. ensure_my_role db (Some u) = Inr (db, role) \<and>
              \<lparr>ur_user_id = u, ur_role = role\<rparr> \<in> set (user_roles db))) \<and>
   (\<not> (\<exists>r\<in>set (user_roles db). ur_user_id r = u) \<longrightarrow>
      ensure_my_role db (Some u) =
        (let role = (if (\<exists>r\<in>set (user_roles db). ur_role r = admin) then cashier else admin)
         in Inr (db\<lparr>user_roles := user_roles db @ [\<lparr>ur_user_id = u, ur_role = role\<rparr>]\<rparr>, role))) \<and>
   (\<forall>db' role. ensure_my_role db (Some u) = Inr (db', role) \<longrightarrow>
      ensure_my_role db' (Some u) = Inr (db', role))"
proof (intro conjI)
  show "ensure_my_role db None = Inl NotAuthenticated"
    by (simp add: ensure_my_role_def)
next
  show "(\<exists>r\<in>set (user_roles db). ur_user_id r = u) \<longrightarrow>
      (\<exists>role. ensure_my_role db (Some u) = Inr (db, role) \<and>
              \<lparr>ur_user_id = u, ur_role = role\<rparr> \<in> set (user_roles db))"
  proof
    assume "\<exists>r\<in>set (user_roles db). ur_user_id r = u"
    then obtain r where r: "find (\<lambda>r. ur_user_id r = u) (user_roles db) = Some r"
      by (cases "find (\<lambda>r. ur_user_id r = u) (user_roles db)") (auto simp: find_None_iff)
    then have "ur_user_id r = u" "r \<in> set (user_roles db)"
      by (auto simp: find_Some_iff)
    then have "\<lparr>ur_user_id = u, ur_role = ur_role r\<rparr> \<in> set (user_roles db)"
      by (cases r) auto
    with r show "\<exists>role. ensure_my_role db (Some u) = Inr (db, role) \<and>
              \<lparr>ur_user_id = u, ur_role = role\<rparr> \<in> set (user_roles db)"
      by (simp add: ensure_my_role_def)
  qed
next
  show "\<not> (\<exists>r\<in>set (user_roles db). ur_user_id r = u) \<longrightarrow>
      ensure_my_role db (Some u) =
        (let role = (if (\<exists>r\<in>set (user_roles db). ur_role r = admin) then cashier else admin)
         in Inr (db\<lparr>user_roles := user_roles db @ [\<lparr>ur_user_id = u, ur_role = role\<rparr>]\<rparr>, role))"
  proof
    assume n: "\<not> (\<exists>r\<in>set (user_roles db). ur_user_id r = u)"
    then have f: "find (\<lambda>r. ur_user_id r = u) (user_roles db) = None"
      by (simp add: find_None_iff)
    from n have c: "\<And>role. \<not> list_ex (\<lambda>r. ur_user_id r = u \<and> ur_role r = role) (user_roles db)"
      by (auto simp: list_ex_iff)
    show "ensure_my_role db (Some u) =
        (let role = (if (\<exists>r\<in>set (user_roles db). ur_role r = admin) then cashier else admin)
         in Inr (db\<lparr>user_roles := user_roles db @ [\<lparr>ur_user_id = u, ur_role = role\<rparr>]\<rparr>, role))"
      using f c
      by (simp add: ensure_my_role_def insert_user_roles_on_conflict_do_nothing_def Let_def list_ex_iff)
  qed
next
  show "\<forall>db' role. ensure_my_role db (Some u) = Inr (db', role) \<longrightarrow>
      ensure_my_role db' (Some u) = Inr (db', role)"
  proof (intro allI impI)
    fix db' role
    assume e: "ensure_my_role db (Some u) = Inr (db', role)"
    show "ensure_my_role db' (Some u) = Inr (db', role)"
    proof (cases "find (\<lambda>r. ur_user_id r = u) (user_roles db)")
      case (Some r)
      with e show ?thesis by (simp add: ensure_my_role_def)
    next
      case None
      then have c: "\<And>role. \<not> list_ex (\<lambda>r. ur_user_id r = u \<and> ur_role r = role) (user_roles db)"
        by (auto simp: list_ex_iff find_None_iff)
      from None e c
      have db': "db' = db\<lparr>user_roles := user_roles db @ [\<lparr>ur_user_id = u, ur_role = role\<rparr>]\<rparr>"
        by (auto simp: ensure_my_role_def insert_user_roles_on_conflict_do_nothing_def Let_def
                 split: if_splits)
      have "find (\<lambda>r. ur_user_id r = u) (user_roles db') = Some \<lparr>ur_user_id = u, ur_role = role\<rparr>"
        using None by (simp add: db' find_append)
      then show ?thesis by (simp add: ensure_my_role_def)
    qed
  qed
qed

text \<open>
  The first registrant becomes admin, the second cashier, and a repeated call of either
  returns the role already held.
\<close>

theorem ensure_my_role_spec_witness:
  "\<not> (\<exists>r\<in>set (user_roles empty_database). ur_user_id r = 1) \<and>
   ensure_my_role empty_database (Some 1) = Inr (one_admin, admin) \<and>
   (\<exists>r\<in>set (user_roles one_admin). ur_user_id r = 1) \<and>
   ensure_my_role one_admin (Some 1) = Inr (one_admin, admin) \<and>
   \<not> (\<exists>r\<in>set (user_roles one_admin). ur_user_id r = 2) \<and>
   ensure_my_role one_admin (Some 2) =
     Inr (one_admin\<lparr>user_roles := [\<lparr>ur_user_id = 1, ur_role = admin\<rparr>,
                                    \<lparr>ur_user_id = 2, ur_role = cashier\<rparr>]\<rparr>, cashier)"
  using ensure_my_role_spec [of empty_database 1] ensure_my_role_spec [of one_admin 1]
    ensure_my_role_spec [of one_admin 2]
  by (simp add: one_admin_def empty_database_def)

text \<open>
  Run without interruption, the statement-by-statement form is \<open>ensure_my_role\<close>.
\<close>

lemma ensure_steps_sequential:
  "(case run_schedule db (Called uid) f2 [First, First, First] of
      (db', Returned r, f2') \<Rightarrow> map_sum id (Pair db') r | _ \<Rightarrow> Inl NotAuthenticated) =
   ensure_my_role db uid"
  by (cases uid) (auto simp: ensure_my_role_def Let_def split: option.splits)

text \<open>
  C8. Two first-time calls by principals 1 and 2 on an empty \<open>user_roles\<close>: each reads
  "no role of mine" and "no admin" before either inserts. Both insert \<open>admin\<close> (the
  keys \<open>(1, admin)\<close> and \<open>(2, admin)\<close> do not conflict) and both return \<open>admin\<close>.
\<close>

theorem ensure_my_role_race_two_admins:
  "run_schedule empty_database (Called (Some 1)) (Called (Some 2))
     [First, First, Second, Second, First, Second] =
   (empty_database\<lparr>user_roles := [\<lparr>ur_user_id = 1, ur_role = admin\<rparr>,
                                   \<lparr>ur_user_id = 2, ur_role = admin\<rparr>]\<rparr>,
    Returned (Inr admin), Returned (Inr admin))"
  by (simp add: empty_database_def insert_user_roles_on_conflict_do_nothing_def)

subsection \<open>Product PIN\<close>

text \<open>
  C10. When every profile of a principal has a NULL \<open>product_pin_hash\<close>,
  \<open>verify_my_product_pin\<close> is false for every submitted PIN, whatever \<open>crypt\<close>
  computes, and no sequence of attempts sets \<open>pinUnlocked\<close>. A principal who signs up
  with no PIN or an empty one gets such a profile.
\<close>

theorem verify_pin_null_hash:
  "((\<forall>p\<in>set (profiles db). pf_user_id p = u \<longrightarrow> pf_product_pin_hash p = None) \<longrightarrow>
      \<not> verify_my_product_pin crypt db (Some u) pin \<and>
      foldl (handleVerifyPin crypt db (Some u)) False pins = False) \<and>
   ((nu_product_pin new = None \<or> nu_product_pin new = Some []) \<longrightarrow>
      (\<forall>p\<in>set (profiles db0). pf_user_id p \<noteq> nu_id new) \<longrightarrow>
      (\<forall>p\<in>set (profiles (handle_new_user crypt salt db0 new)).
          pf_user_id p = nu_id new \<longrightarrow> pf_product_pin_hash p = None))"
proof (intro conjI impI)
  assume h: "\<forall>p\<in>set (profiles db). pf_user_id p = u \<longrightarrow> pf_product_pin_hash p = None"
  then have v: "\<And>x. \<not> verify_my_product_pin crypt db (Some u) x"
    by (auto simp: verify_my_product_pin_def list_ex_iff)
  show "\<not> verify_my_product_pin crypt db (Some u) pin" by (rule v)
  show "foldl (handleVerifyPin crypt db (Some u)) False pins = False"
    by (induction pins rule: rev_induct) (simp_all add: handleVerifyPin_def v)
next
  assume "nu_product_pin new = None \<or> nu_product_pin new = Some []"
    and "\<forall>p\<in>set (profiles db0). pf_user_id p \<noteq> nu_id new"
  then show "\<forall>p\<in>set (profiles (handle_new_user crypt salt db0 new)).
          pf_user_id p = nu_id new \<longrightarrow> pf_product_pin_hash p = None"
    by (auto simp: handle_new_user_def)
qed

text \<open>
  Principal 7 signs up with an empty PIN: the stored hash is NULL, and neither the empty
  PIN nor any other unlocks the gate.
\<close>

theorem verify_pin_null_hash_witness:
  "nu_product_pin signup_without_pin = Some [] \<and>
   profiles empty_database = [] \<and>
   profiles (handle_new_user toy_crypt ''$2a$06$salt'' empty_database signup_without_pin) =
     [\<lparr>pf_user_id = 7, pf_display_name = ''Ana'', pf_product_pin_hash = None\<rparr>] \<and>
   \<not> verify_my_product_pin toy_crypt
       (handle_new_user toy_crypt ''$2a$06$salt'' empty_database signup_without_pin) (Some 7) (Some []) \<and>
   foldl (handleVerifyPin toy_crypt
       (handle_new_user toy_crypt ''$2a$06$salt'' empty_database signup_without_pin) (Some 7))
     False [[], ''1234'', ''0000''] = False"
  using verify_pin_null_hash [of "handle_new_user toy_crypt ''$2a$06$salt'' empty_database signup_without_pin"
      7 toy_crypt "Some []" "[[], ''1234'', ''0000'']" signup_without_pin empty_database "''$2a$06$salt''"]
  by (simp add: signup_without_pin_def empty_database_def handle_new_user_def)

subsection \<open>Checkout: what each statement changes\<close>














subsection \<open>The scenarios, evaluated\<close>

lemma scenario_names:
  "trim [] = []"
  "trim '' Maria Santos '' = ''Maria Santos''"
  "trim ''MARIA santos  '' = ''MARIA santos''"
  "trim ''Maria Santos'' = ''Maria Santos''"
  "trim ''maria santos'' = ''maria santos''"
  "toLowerCase ''Maria Santos'' = ''maria santos''"
  "toLowerCase ''MARIA santos'' = ''maria santos''"
  "toLowerCase ''maria santos'' = ''maria santos''"
  by code_simp+

lemmas scenario_defs =
  empty_database_def sari_store_def stocked_def pancit_def bread_def scenario_cart_def
  scenario_lines_def cash_sale_def cash_header_def after_cash_sale_def credit_sale_def
  credit_header_def maria_def credit_entry_def after_credit_sale_def with_regulars_def
  credit_sale_regular_def store_without_bread_def all_bread_def bread_header_def
  bread_line_def sold_out_def reprice_def header_without_lines_def credit_without_lines_def
  oversold_def maria_view_def payment_entry_def

lemmas statement_defs =
  has_role_def users_own_products_def select_products_def update_products_def
  apply_payload_def delete_products_def users_own_customers_def authenticated_add_customers_def
  select_customers_def insert_customers_def insert_customers_returning_def
  read_own_or_admin_sales_def insert_sales_returning_def deduct_stock_on_sale_def
  insert_sale_items_check_def insert_sale_items_def users_read_own_utang_def
  users_insert_own_utang_def select_utang_def insert_utang_def

lemmas page_defs =
  fetchProducts_def pos_fetchCustomers_def subtotal_def change_def scenario_names
  resolve_customer_def sale_line_def post_credit_def handleCheckout_def
  add_balance_def fetchCustomers_def handlePayment_def Let_def



subsection \<open>Atomicity of checkout\<close>




subsection \<open>Stock\<close>




subsection \<open>Cash sales\<close>



subsection \<open>Credit sales\<close>



subsection \<open>Sale lines\<close>





subsection \<open>Payments\<close>





subsection \<open>Ownership\<close>

text \<open>
  What does hold of the claim: a principal selects only rows it owns, and an update or a
  delete sent by a principal leaves every product of another owner as it was.
\<close>

lemma select_only_own:
  "\<forall>p\<in>set (select_products db uid). p_owner_user_id p = uid"
  "\<forall>c\<in>set (select_customers db uid). c_owner_user_id c = uid"
  "\<forall>u\<in>set (select_utang db uid). ul_owner_user_id u = uid"
  by (auto simp: select_products_def users_own_products_def select_customers_def
        users_own_customers_def select_utang_def users_read_own_utang_def)

lemma filter_map_other:
  assumes "\<And>x. P x \<Longrightarrow> \<not> Q x \<and> \<not> Q (f x)"
  shows "filter Q (map (\<lambda>x. if P x then f x else x) xs) = filter Q xs"
  using assms by (induction xs) auto

lemma update_products_others:
  assumes "update_products db uid pid pl = Inr db'"
  shows "filter (\<lambda>p. p_owner_user_id p \<noteq> uid) (products db') =
         filter (\<lambda>p. p_owner_user_id p \<noteq> uid) (products db)"
proof -
  have "products db' = map (\<lambda>p. if p_id p = pid \<and> users_own_products uid p
                                  then apply_payload pl p else p) (products db)"
    using assms by (auto simp: update_products_def Let_def split: if_splits)
  moreover have "filter (\<lambda>p. p_owner_user_id p \<noteq> uid)
                   (map (\<lambda>p. if p_id p = pid \<and> users_own_products uid p
                             then apply_payload pl p else p) (products db)) =
                 filter (\<lambda>p. p_owner_user_id p \<noteq> uid) (products db)"
    by (rule filter_map_other) (simp add: users_own_products_def apply_payload_def)
  ultimately show ?thesis by simp
qed

lemma delete_products_others:
  assumes "delete_products db uid pid = Inr db'"
  shows "filter (\<lambda>p. p_owner_user_id p \<noteq> uid) (products db') =
         filter (\<lambda>p. p_owner_user_id p \<noteq> uid) (products db)"
proof -
  have "products db' = filter (\<lambda>p. \<not> (p_id p = pid \<and> users_own_products uid p)) (products db)"
    using assms by (auto simp: delete_products_def Let_def split: if_splits)
  then show ?thesis
    by (auto simp: users_own_products_def intro: filter_cong)
qed

text \<open>
  C3. Principal 2 owns no product and sees none. A checkout by principal 2 of a cart that
  names product 12 of principal 1 completes, and the trigger takes the eight loaves off
  principal 1's stock. Principal 2 can also insert a customer whose owner is principal 1,
  through the policy "Authenticated add customers"; the same insert into
  \<open>products\<close> is refused.
\<close>

theorem isolation_broken_by_trigger_and_leftover_policy:
  "select_products sari_store 2 = [] \<and>
   handleCheckout sari_store 2 all_bread =
     (sari_store\<lparr>products := stocked 48 0, sales := [bread_header 100 2],
                  sale_items := [bread_line 100], uuid_counter := 101\<rparr>,
      all_bread, SaleCompleted (bread_header 100 2)) \<and>
   insert_customers sari_store 2 ''Pedro Reyes'' (Some 1) =
     Inr (sari_store\<lparr>customers := [\<lparr>c_id = 100, c_full_name = ''Pedro Reyes'',
                                      c_owner_user_id = 1\<rparr>],
                      uuid_counter := 101\<rparr>) \<and>
   insert_products sari_store 2 ''Pedro's Bread'' 1 1 (Some 1) = Inl RlsViolation"
  by (simp add: scenario_defs statement_defs page_defs insert_products_def)

end
